theory Spec2Isabelle
  imports Complex_Main
begin

section \<open>Context.ai backend (backend/main.py): data\<close>

text \<open>
  The service is one Python module: a start-up part that runs once (lines 17-83) and two
  request handlers, \<^verbatim>\<open>upload_document\<close> and \<^verbatim>\<open>chat_endpoint\<close>. Both handlers are
  \<^verbatim>\<open>async def\<close> bodies without any \<^verbatim>\<open>await\<close>, so each one runs to its end before the
  next request is looked at; the model runs requests one after the other.

  The document loaders, the semantic chunker, the vector store, the language model and the
  disk are libraries and services that the module only calls. They are parameters of the
  model (the record \<open>env\<close>); nothing is assumed about what they return unless a theorem
  says so in a hypothesis.
\<close>

text \<open>JSON values, for response bodies and document metadata (Python dicts keep key order).\<close>

datatype json =
    JInt int
  | JStr string
  | JList "json list"
  | JObj "(string \<times> json) list"

text \<open>A LangChain \<^verbatim>\<open>Document\<close>.\<close>

record document =
  page_content :: string
  metadata :: "(string \<times> json) list"

text \<open>FastAPI's \<^verbatim>\<open>UploadFile\<close>: the client's file name and the bytes read from
  \<^verbatim>\<open>file.file\<close>.\<close>

record upload_file =
  filename :: string
  file_bytes :: string

text \<open>\<^verbatim>\<open>class QueryRequest(BaseModel): question: str\<close>\<close>

record query_request =
  question :: string

text \<open>
  Exceptions. \<open>ValueError\<close> is the one the module raises itself (line 31);
  \<open>FileExistsError\<close> is what \<^verbatim>\<open>os.makedirs\<close> raises when the path is a regular file;
  \<open>Raised\<close> is any other exception that comes out of a library call and that the module
  does not catch.
\<close>

datatype exn =
    ValueError string
  | FileExistsError string
  | Raised string

text \<open>\<^verbatim>\<open>HuggingFaceEmbeddings(model_name=...)\<close>\<close>

datatype embeddings = HuggingFaceEmbeddings (model_name: string)

text \<open>\<^verbatim>\<open>ChatPerplexity(model=..., temperature=...)\<close>\<close>

datatype chat_perplexity = ChatPerplexity (model: string) (temperature: real)

text \<open>\<^verbatim>\<open>SemanticChunker(embeddings, breakpoint_threshold_type=...)\<close>\<close>

datatype semantic_chunker =
  SemanticChunker (embeddings: embeddings) (breakpoint_threshold_type: string)

text \<open>
  \<^verbatim>\<open>Chroma(persist_directory=..., embedding_function=...)\<close>. The stored entries are of a
  type \<open>'c\<close> the model does not look into. The attribute is named \<open>embedding_fn\<close> here
  because \<open>embedding_function\<close> is the module's global of line 42.
\<close>

record 'c chroma =
  persist_directory :: string
  embedding_fn :: embeddings
  collection :: 'c

text \<open>The library calls a handler makes, in the order it makes them.\<close>

datatype call =
    Call_copyfileobj string
  | Call_load string
  | Call_split_documents semantic_chunker
  | Call_add_documents embeddings nat
  | Call_similarity_search embeddings string nat
  | Call_invoke chat_perplexity string nat

text \<open>
  What lies outside the module. \<open>write_fault disk path bytes\<close> is \<open>None\<close> when
  \<^verbatim>\<open>open(path, "wb")\<close> and \<^verbatim>\<open>copyfileobj\<close> both succeed; it is \<open>Some (msg, None)\<close> when
  \<^verbatim>\<open>open\<close> raises (the disk is untouched) and \<open>Some (msg, Some b)\<close> when the file was opened,
  hence truncated, and the copy raised after writing \<open>b\<close>; \<open>msg\<close> is \<^verbatim>\<open>str(e)\<close>.
  \<open>PyPDFLoader_load disk path\<close> is \<^verbatim>\<open>PyPDFLoader(path).load()\<close>, the constructor included,
  and likewise for \<^verbatim>\<open>Docx2txtLoader\<close>.
  \<open>add_documents\<close> returns the entries it leaves behind and the exception it raised, if any.
  \<open>invoke\<close> is one \<^verbatim>\<open>chain.invoke\<close>: it sees the calls made so far (the provider may answer
  the same prompt differently from one call to the next) and returns the number of requests
  the client sent to the provider during that call, and how the call ended. Line 52 builds the
  client without a word on retries, so how often it re-sends a request is the library's.
  The \<open>_fault\<close> fields say which start-up steps raise: creating a directory, and the
  constructors of lines 42, 45 and 52 (\<open>None\<close>: the step succeeds).
\<close>

record 'c env =
  write_fault :: "(string \<rightharpoonup> string) \<Rightarrow> string \<Rightarrow> string \<Rightarrow> (string \<times> string option) option"
  PyPDFLoader_load :: "(string \<rightharpoonup> string) \<Rightarrow> string \<Rightarrow> exn + document list"
  Docx2txtLoader_load :: "(string \<rightharpoonup> string) \<Rightarrow> string \<Rightarrow> exn + document list"
  split_documents :: "semantic_chunker \<Rightarrow> document list \<Rightarrow> exn + document list"
  add_documents :: "embeddings \<Rightarrow> 'c \<Rightarrow> document list \<Rightarrow> 'c \<times> exn option"
  similarity_search :: "embeddings \<Rightarrow> 'c \<Rightarrow> string \<Rightarrow> nat \<Rightarrow> exn + document list"
  invoke :: "chat_perplexity \<Rightarrow> call list \<Rightarrow> string \<Rightarrow> nat \<times> (exn + string)"
  mkdir_fault :: "string \<Rightarrow> string option"
  HuggingFaceEmbeddings_fault :: "string \<Rightarrow> string option"
  Chroma_fault :: "string \<Rightarrow> embeddings \<Rightarrow> string option"
  ChatPerplexity_fault :: "string \<Rightarrow> real \<Rightarrow> string option"

text \<open>
  What the machine holds when the process starts: the parsed \<^verbatim>\<open>.env\<close> file, the process
  environment, the directories and files on disk, and the entries already persisted under
  \<^verbatim>\<open>vector_db\<close>.
\<close>

record 'c host =
  host_dotenv :: "string \<rightharpoonup> string"
  host_environ :: "string \<rightharpoonup> string"
  host_dirs :: "string set"
  host_files :: "string \<rightharpoonup> string"
  host_collection :: 'c

text \<open>The module's globals after start-up, the disk, and the calls made so far.\<close>

record 'c state =
  environ :: "string \<rightharpoonup> string"
  API_KEY :: string
  dirs :: "string set"
  files :: "string \<rightharpoonup> string"
  embedding_function :: embeddings
  vector_store :: "'c chroma"
  llm :: chat_perplexity
  trace :: "call list"

section \<open>Python helpers\<close>

text \<open>\<^verbatim>\<open>s.startswith(p)\<close> and \<^verbatim>\<open>s.endswith(p)\<close>\<close>

definition startswith :: "string \<Rightarrow> string \<Rightarrow> bool" where
  "startswith s p \<longleftrightarrow> take (length p) s = p"

definition endswith :: "string \<Rightarrow> string \<Rightarrow> bool" where
  "endswith s p \<longleftrightarrow> length p \<le> length s \<and> drop (length s - length p) s = p"

text \<open>\<^verbatim>\<open>os.path.join(a, b)\<close> of posixpath: an absolute \<open>b\<close> discards \<open>a\<close>.\<close>

definition os_path_join :: "string \<Rightarrow> string \<Rightarrow> string" where
  "os_path_join a b =
     (if startswith b ''/'' then b
      else if a = [] \<or> endswith a ''/'' then a @ b
      else a @ ''/'' @ b)"

text \<open>\<^verbatim>\<open>sep.join(xs)\<close>\<close>

fun str_join :: "string \<Rightarrow> string list \<Rightarrow> string" where
  "str_join sep [] = []"
| "str_join sep [x] = x"
| "str_join sep (x # y # ys) = x @ sep @ str_join sep (y # ys)"

text \<open>\<^verbatim>\<open>load_dotenv()\<close>: a variable the process already has is kept.\<close>

definition load_dotenv :: "(string \<rightharpoonup> string) \<Rightarrow> (string \<rightharpoonup> string) \<Rightarrow> (string \<rightharpoonup> string)" where
  "load_dotenv dotenv env_vars = dotenv ++ env_vars"

text \<open>
  \<^verbatim>\<open>with open(file_path, "wb") as buffer: shutil.copyfileobj(file.file, buffer)\<close>: the
  message of the exception, if one was raised, and the disk afterwards.
\<close>

definition copy_to_disk ::
  "'c env \<Rightarrow> (string \<rightharpoonup> string) \<Rightarrow> string \<Rightarrow> string \<Rightarrow> string option \<times> (string \<rightharpoonup> string)" where
  "copy_to_disk env disk path bytes =
     (case write_fault env disk path bytes of
        None \<Rightarrow> (None, disk(path \<mapsto> bytes))
      | Some (msg, None) \<Rightarrow> (Some msg, disk)
      | Some (msg, Some b) \<Rightarrow> (Some msg, disk(path \<mapsto> b)))"

section \<open>Start-up (lines 17-83)\<close>

definition UPLOAD_DIR :: string where
  "UPLOAD_DIR = ''uploaded_files''"

definition DB_DIR :: string where
  "DB_DIR = ''vector_db''"

definition api_key_message :: string where
  "api_key_message = ''API Key not found! Make sure PPLX_API_KEY is in your .env file.''"

text \<open>
  \<^verbatim>\<open>os.makedirs(name, exist_ok=True)\<close> for a single path component: nothing to do when the
  directory exists, \<^verbatim>\<open>FileExistsError\<close> when a regular file has the name, otherwise the
  directory is created unless the system refuses.
\<close>

definition os_makedirs ::
  "'c env \<Rightarrow> string set \<Rightarrow> (string \<rightharpoonup> string) \<Rightarrow> string \<Rightarrow> exn + string set" where
  "os_makedirs env ds disk name =
     (if name \<in> ds then Inr ds
      else case disk name of
             Some b \<Rightarrow> Inl (FileExistsError name)
           | None \<Rightarrow>
               (case mkdir_fault env name of
                  Some msg \<Rightarrow> Inl (Raised msg)
                | None \<Rightarrow> Inr (insert name ds)))"

text \<open>
  Lines 33-83, reached once the key has been found: the key is written back to the
  environment, the two directories are made, then the embedder, the store and the model
  client are built, in that order; the first step that raises ends the module.
  \<^verbatim>\<open>ChatPromptTemplate.from_template\<close> of line 83 parses the constant template.
\<close>

definition startup_rest ::
  "'c env \<Rightarrow> 'c host \<Rightarrow> (string \<rightharpoonup> string) \<Rightarrow> string \<Rightarrow> exn + 'c state" where
  "startup_rest env h env_vars key =
     (case os_makedirs env (host_dirs h) (host_files h) UPLOAD_DIR of
        Inl e \<Rightarrow> Inl e
      | Inr ds1 \<Rightarrow>
     (case os_makedirs env ds1 (host_files h) DB_DIR of
        Inl e \<Rightarrow> Inl e
      | Inr ds2 \<Rightarrow>
     (case HuggingFaceEmbeddings_fault env ''sentence-transformers/all-MiniLM-L6-v2'' of
        Some msg \<Rightarrow> Inl (Raised msg)
      | None \<Rightarrow>
     (let emb = HuggingFaceEmbeddings ''sentence-transformers/all-MiniLM-L6-v2'' in
      case Chroma_fault env DB_DIR emb of
        Some msg \<Rightarrow> Inl (Raised msg)
      | None \<Rightarrow>
     (case ChatPerplexity_fault env ''sonar-pro'' (1 / 10) of
        Some msg \<Rightarrow> Inl (Raised msg)
      | None \<Rightarrow>
          Inr \<lparr> environ = env_vars(''PPLX_API_KEY'' \<mapsto> key),
                API_KEY = key,
                dirs = ds2,
                files = host_files h,
                embedding_function = emb,
                vector_store =
                  \<lparr> persist_directory = DB_DIR, embedding_fn = emb,
                    collection = host_collection h \<rparr>,
                llm = ChatPerplexity ''sonar-pro'' (1 / 10),
                trace = [] \<rparr>)))))"

text \<open>
  Lines 17-31. \<^verbatim>\<open>if not API_KEY: raise ValueError(...)\<close>: Python's \<^verbatim>\<open>not\<close> holds of
  \<^verbatim>\<open>None\<close> and of the empty string.
\<close>

definition startup :: "'c env \<Rightarrow> 'c host \<Rightarrow> exn + 'c state" where
  "startup env h =
     (let env_vars = load_dotenv (host_dotenv h) (host_environ h) in
      case env_vars ''PPLX_API_KEY'' of
        None \<Rightarrow> Inl (ValueError api_key_message)
      | Some key \<Rightarrow>
          if key = [] then Inl (ValueError api_key_message)
          else startup_rest env h env_vars key)"

text \<open>The prompt template of lines 59-82, cut at \<^verbatim>\<open>{context}\<close> and \<^verbatim>\<open>{question}\<close>.\<close>

definition template_head :: string where
  \<open>template_head =
     ''\<newline>You are an intelligent assistant named 'Context AI'. You have access to the following context (excerpts from user documents).\<newline>\<newline>CONTEXT FROM DOCUMENTS:\<newline>''\<close>

definition template_mid :: string where
  \<open>template_mid = ''\<newline>\<newline>USER QUESTION: \<newline>''\<close>

definition template_tail :: string where
  \<open>template_tail =
     ''\<newline>\<newline>INSTRUCTIONS:\<newline>1. **Structure your answer:** - Start with a direct answer in **bold**.\<newline>   - Use a "Key Details" section with bullet points for explanation.\<newline>   - Never write long paragraphs; break them up.\<newline>2. **Formatting:** Use Markdown (## Headers, * Bullets, **Bold**) strictly.\<newline>3. **Sources:** If the answer is in the document, mention it. If not, state you are using general knowledge.\<newline>\<newline>EXAMPLE FORMAT:\<newline>**The project name is Vitalyze.ai.**\<newline>\<newline>### Key Details\<newline>* It is an AI-powered health hub.\<newline>* The main goal is to simplify medical reports.\<newline>* It features a comparative mode and a simple explanation mode.\<newline>''\<close>

text \<open>\<^verbatim>\<open>prompt.invoke({"context": c, "question": q})\<close>, as the text sent to the model.\<close>

definition prompt :: "string \<Rightarrow> string \<Rightarrow> string" where
  "prompt context_text user_question =
     template_head @ context_text @ template_mid @ user_question @ template_tail"

section \<open>POST /upload/\<close>

definition log_call :: "call \<Rightarrow> 'c state \<Rightarrow> 'c state" where
  "log_call c s = s\<lparr>trace := trace s @ [c]\<rparr>"

text \<open>
  Lines 110-117, which both loader branches reach: \<open>loaded\<close> is what \<^verbatim>\<open>loader.load()\<close>
  gave. An exception of the loader, the chunker or the store leaves the handler.
\<close>

definition split_and_add ::
  "'c env \<Rightarrow> 'c state \<Rightarrow> exn + document list \<Rightarrow> (exn + json) \<times> 'c state" where
  "split_and_add env s loaded =
     (case loaded of
        Inl e \<Rightarrow> (Inl e, s)
      | Inr documents \<Rightarrow>
          let text_splitter = SemanticChunker (embedding_function s) ''percentile'';
              s1 = log_call (Call_split_documents text_splitter) s
          in case split_documents env text_splitter documents of
               Inl e \<Rightarrow> (Inl e, s1)
             | Inr chunked_documents \<Rightarrow>
                 let vs = vector_store s1;
                     (entries, failure) =
                       add_documents env (embedding_fn vs) (collection vs) chunked_documents;
                     s2 = log_call (Call_add_documents (embedding_fn vs) (length chunked_documents))
                            (s1\<lparr>vector_store := vs\<lparr>collection := entries\<rparr>\<rparr>)
                 in case failure of
                      Some e \<Rightarrow> (Inl e, s2)
                    | None \<Rightarrow>
                        (Inr (JObj [(''status'', JStr ''success''),
                                    (''chunks'', JInt (int (length chunked_documents)))]), s2))"

definition upload_document ::
  "'c env \<Rightarrow> 'c state \<Rightarrow> upload_file \<Rightarrow> (exn + json) \<times> 'c state" where
  "upload_document env s f =
     (let file_path = os_path_join UPLOAD_DIR (filename f);
          (failure, disk) = copy_to_disk env (files s) file_path (file_bytes f);
          s1 = log_call (Call_copyfileobj file_path) (s\<lparr>files := disk\<rparr>)
      in case failure of
           Some e \<Rightarrow> (Inr (JObj [(''error'', JStr (''Failed to save file: '' @ e))]), s1)
         | None \<Rightarrow>
             if endswith (filename f) ''.pdf'' then
               split_and_add env (log_call (Call_load file_path) s1)
                 (PyPDFLoader_load env disk file_path)
             else if endswith (filename f) ''.docx'' then
               split_and_add env (log_call (Call_load file_path) s1)
                 (Docx2txtLoader_load env disk file_path)
             else (Inr (JObj [(''error'', JStr ''Unsupported file format'')]), s1))"

section \<open>POST /chat/\<close>

definition chat_endpoint ::
  "'c env \<Rightarrow> 'c state \<Rightarrow> query_request \<Rightarrow> (exn + json) \<times> 'c state" where
  "chat_endpoint env s request =
     (let user_question = question request;
          vs = vector_store s;
          s1 = log_call (Call_similarity_search (embedding_fn vs) user_question 3) s
      in case similarity_search env (embedding_fn vs) (collection vs) user_question 3 of
           Inl e \<Rightarrow> (Inl e, s1)
         | Inr results \<Rightarrow>
             let context_text = str_join ''\<newline>\<newline>'' (map page_content results);
                 text = prompt context_text user_question;
                 (requests, outcome) = invoke env (llm s1) (trace s1) text;
                 s2 = log_call (Call_invoke (llm s1) text requests) s1
             in case outcome of
                  Inl e \<Rightarrow> (Inl e, s2)
                | Inr response \<Rightarrow>
                    (Inr (JObj [(''response'', JStr response),
                                (''source_docs'', JList (map (\<lambda>doc. JObj (metadata doc)) results))]),
                     s2))"

section \<open>The process\<close>

datatype request =
    POST_upload upload_file
  | POST_chat query_request

definition dispatch :: "'c env \<Rightarrow> 'c state \<Rightarrow> request \<Rightarrow> (exn + json) \<times> 'c state" where
  "dispatch env s r =
     (case r of
        POST_upload f \<Rightarrow> upload_document env s f
      | POST_chat q \<Rightarrow> chat_endpoint env s q)"

text \<open>
  FastAPI answers a request whose handler raised with an error response (\<open>Inl\<close> here, status
  500 on the wire) and goes on to the next request.
\<close>

fun serve :: "'c env \<Rightarrow> 'c state \<Rightarrow> request list \<Rightarrow> (exn + json) list \<times> 'c state" where
  "serve env s [] = ([], s)"
| "serve env s (r # rs) =
     (let (response, s1) = dispatch env s r;
          (responses, s2) = serve env s1 rs
      in (response # responses, s2))"

text \<open>
  An exception at module level ends the process before the server listens: no request gets a
  response.
\<close>

definition process ::
  "'c env \<Rightarrow> 'c host \<Rightarrow> request list \<Rightarrow> exn + ((exn + json) list \<times> 'c state)" where
  "process env h rs =
     (case startup env h of
        Inl e \<Rightarrow> Inl e
      | Inr s \<Rightarrow> Inr (serve env s rs))"

section \<open>Reading the call log\<close>

text \<open>The embedder a logged call was made with, for the calls that take one.\<close>

fun call_embedder :: "call \<Rightarrow> embeddings option" where
  "call_embedder (Call_split_documents chunker) = Some (embeddings chunker)"
| "call_embedder (Call_add_documents e n) = Some e"
| "call_embedder (Call_similarity_search e q k) = Some e"
| "call_embedder (Call_copyfileobj p) = None"
| "call_embedder (Call_load p) = None"
| "call_embedder (Call_invoke m t n) = None"

fun is_invoke :: "call \<Rightarrow> bool" where
  "is_invoke (Call_invoke m t n) = True"
| "is_invoke c = False"

text \<open>
  The globals and the store's handle hold the embedder \<open>E\<close>, and every logged call that took
  an embedder took \<open>E\<close>.
\<close>

definition one_embedder :: "embeddings \<Rightarrow> 'c state \<Rightarrow> bool" where
  "one_embedder E s \<longleftrightarrow>
     embedding_function s = E \<and> embedding_fn (vector_store s) = E \<and>
     list_all (\<lambda>c. call_embedder c = None \<or> call_embedder c = Some E) (trace s)"

section \<open>A small environment to run the handlers in\<close>

text \<open>
  An instance of \<open>env\<close> over a list of documents: one file cannot be written, a loader
  returns the file as one page, the chunker returns its input, the store appends and serves
  its first \<open>k\<close> entries, and the first call to the model fails after the client has sent
  the request seven times (one attempt and six retries, the client's default). No start-up
  step raises. It stands for no library; it only lets the theorems below be run on concrete
  requests.
\<close>

definition sim_env :: "(document list) env" where
  "sim_env =
     \<lparr> write_fault = (\<lambda>disk path bytes.
         if path = ''uploaded_files/locked.txt'' then Some (''[Errno 13] Permission denied'', None)
         else None),
       PyPDFLoader_load = (\<lambda>disk path.
         case disk path of
           None \<Rightarrow> Inl (Raised ''File path is not a valid file'')
         | Some b \<Rightarrow>
             Inr [\<lparr>page_content = b, metadata = [(''source'', JStr path), (''page'', JInt 0)]\<rparr>]),
       Docx2txtLoader_load = (\<lambda>disk path.
         case disk path of
           None \<Rightarrow> Inl (Raised ''File path is not a valid file'')
         | Some b \<Rightarrow> Inr [\<lparr>page_content = b, metadata = [(''source'', JStr path)]\<rparr>]),
       split_documents = (\<lambda>chunker docs. Inr docs),
       add_documents = (\<lambda>e entries docs. (entries @ docs, None)),
       similarity_search = (\<lambda>e entries q k. Inr (take k entries)),
       invoke = (\<lambda>m calls text.
         if filter is_invoke calls = [] then (7, Inl (Raised ''429 Too Many Requests''))
         else (1, Inr ''**Vitalyze.ai**'')),
       mkdir_fault = (\<lambda>name. None),
       HuggingFaceEmbeddings_fault = (\<lambda>name. None),
       Chroma_fault = (\<lambda>dir e. None),
       ChatPerplexity_fault = (\<lambda>name t. None) \<rparr>"


definition sim_host :: "(document list) host" where
  "sim_host =
     \<lparr> host_dotenv = [''PPLX_API_KEY'' \<mapsto> ''pplx-0000''],
       host_environ = Map.empty,
       host_dirs = {},
       host_files = Map.empty,
       host_collection = [] \<rparr>"

text \<open>The same machine with the variable set to the empty string.\<close>

definition blank_key_host :: "(document list) host" where
  "blank_key_host =
     sim_host\<lparr>host_dotenv := Map.empty, host_environ := [''PPLX_API_KEY'' \<mapsto> []]\<rparr>"

text \<open>The same machine where \<^verbatim>\<open>uploaded_files\<close> is a regular file.\<close>

definition file_in_the_way_host :: "(document list) host" where
  "file_in_the_way_host = sim_host\<lparr>host_files := [''uploaded_files'' \<mapsto> ''not a directory'']\<rparr>"

text \<open>The state \<open>startup sim_env sim_host\<close> ends in.\<close>

definition sim_state :: "(document list) state" where
  "sim_state =
     \<lparr> environ = [''PPLX_API_KEY'' \<mapsto> ''pplx-0000''],
       API_KEY = ''pplx-0000'',
       dirs = insert DB_DIR (insert UPLOAD_DIR {}),
       files = Map.empty,
       embedding_function = HuggingFaceEmbeddings ''sentence-transformers/all-MiniLM-L6-v2'',
       vector_store =
         \<lparr> persist_directory = DB_DIR,
           embedding_fn = HuggingFaceEmbeddings ''sentence-transformers/all-MiniLM-L6-v2'',
           collection = [] \<rparr>,
       llm = ChatPerplexity ''sonar-pro'' (1 / 10),
       trace = [] \<rparr>"



definition notes_txt :: upload_file where
  "notes_txt = \<lparr>filename = ''notes.txt'', file_bytes = ''plain text''\<rparr>"

definition report_pdf :: upload_file where
  "report_pdf = \<lparr>filename = ''report.pdf'', file_bytes = ''The project name is Vitalyze.ai.''\<rparr>"

definition locked_txt :: upload_file where
  "locked_txt = \<lparr>filename = ''locked.txt'', file_bytes = ''plain text''\<rparr>"

definition evil_txt :: upload_file where
  "evil_txt = \<lparr>filename = ''/tmp/evil.txt'', file_bytes = ''x''\<rparr>"

definition name_query :: query_request where
  "name_query = \<lparr>question = ''What is the project name?''\<rparr>"

section \<open>One embedder for the whole run\<close>

lemma split_and_add_keeps:
  "files (snd (split_and_add env s l)) = files s"
  "embedding_function (snd (split_and_add env s l)) = embedding_function s"
  "embedding_fn (vector_store (snd (split_and_add env s l))) = embedding_fn (vector_store s)"
  "llm (snd (split_and_add env s l)) = llm s"
  by (auto simp: split_and_add_def log_call_def Let_def split: sum.splits prod.splits option.splits)

lemma one_embedder_log:
  "one_embedder E s \<Longrightarrow> call_embedder c = None \<or> call_embedder c = Some E \<Longrightarrow> one_embedder E (log_call c s)"
  by (simp add: one_embedder_def log_call_def)

lemma one_embedder_files: "one_embedder E (s\<lparr>files := d\<rparr>) = one_embedder E s"
  by (simp add: one_embedder_def)

lemma one_embedder_collection:
  "one_embedder E (s\<lparr>vector_store := (vector_store s)\<lparr>collection := c\<rparr>\<rparr>) = one_embedder E s"
  by (simp add: one_embedder_def)

lemma one_embedder_split_and_add:
  assumes "one_embedder E s"
  shows "one_embedder E (snd (split_and_add env s l))"
proof (cases l)
  case (Inl e)
  with assms show ?thesis by (simp add: split_and_add_def)
next
  case (Inr documents)
  let ?chunker = "SemanticChunker (embedding_function s) ''percentile''"
  let ?s1 = "log_call (Call_split_documents ?chunker) s"
  have E: "embedding_function s = E" "embedding_fn (vector_store s) = E"
    using assms by (simp_all add: one_embedder_def)
  have s1: "one_embedder E ?s1"
    by (rule one_embedder_log) (simp_all add: assms E)
  show ?thesis
  proof (cases "split_documents env ?chunker documents")
    case (Inl e)
    with Inr s1 show ?thesis by (simp add: split_and_add_def Let_def)
  next
    case chunks: (Inr chunked)
    obtain entries failure where a:
      "add_documents env (embedding_fn (vector_store ?s1)) (collection (vector_store ?s1)) chunked = (entries, failure)"
      by (cases "add_documents env (embedding_fn (vector_store ?s1)) (collection (vector_store ?s1)) chunked")
    have fn: "embedding_fn (vector_store ?s1) = E"
      using E by (simp add: log_call_def)
    have "one_embedder E (log_call (Call_add_documents E (length chunked))
        (?s1\<lparr>vector_store := (vector_store ?s1)\<lparr>collection := entries\<rparr>\<rparr>))"
      by (rule one_embedder_log) (simp_all add: one_embedder_collection s1)
    with Inr chunks a fn show ?thesis
      by (simp add: split_and_add_def Let_def split: option.splits)
  qed
qed

lemma one_embedder_upload:
  assumes "one_embedder E s"
  shows "one_embedder E (snd (upload_document env s f))"
proof -
  let ?p = "os_path_join UPLOAD_DIR (filename f)"
  obtain failure disk where c: "copy_to_disk env (files s) ?p (file_bytes f) = (failure, disk)"
    by (cases "copy_to_disk env (files s) ?p (file_bytes f)")
  let ?s1 = "log_call (Call_copyfileobj ?p) (s\<lparr>files := disk\<rparr>)"
  have s1: "one_embedder E ?s1"
    by (rule one_embedder_log) (simp_all add: one_embedder_files assms)
  have s2: "one_embedder E (log_call (Call_load ?p) ?s1)"
    by (rule one_embedder_log) (simp_all add: s1)
  have tail: "one_embedder E (snd (split_and_add env (log_call (Call_load ?p) ?s1) l))" for l
    using s2 by (rule one_embedder_split_and_add)
  show ?thesis
  proof (cases failure)
    case (Some e)
    have "snd (upload_document env s f) = ?s1"
      by (simp add: upload_document_def Let_def c Some)
    with s1 show ?thesis by simp
  next
    case None
    have "snd (upload_document env s f) = ?s1 \<or>
        (\<exists>l. snd (upload_document env s f) = snd (split_and_add env (log_call (Call_load ?p) ?s1) l))"
      by (auto simp: upload_document_def Let_def c None)
    with s1 tail show ?thesis by auto
  qed
qed

lemma one_embedder_chat:
  assumes "one_embedder E s"
  shows "one_embedder E (snd (chat_endpoint env s q))"
proof -
  let ?s1 = "log_call (Call_similarity_search (embedding_fn (vector_store s)) (question q) 3) s"
  have s1: "one_embedder E ?s1"
    by (rule one_embedder_log) (use assms in \<open>simp_all add: one_embedder_def\<close>)
  have s2: "one_embedder E (log_call (Call_invoke m t n) ?s1)" for m t n
    by (rule one_embedder_log) (simp_all add: s1)
  have "snd (chat_endpoint env s q) = ?s1 \<or>
      (\<exists>m t n. snd (chat_endpoint env s q) = log_call (Call_invoke m t n) ?s1)"
    by (auto simp: chat_endpoint_def Let_def split: sum.splits prod.splits)
  with s1 s2 show ?thesis by auto
qed

lemma one_embedder_dispatch:
  "one_embedder E s \<Longrightarrow> one_embedder E (snd (dispatch env s r))"
  by (cases r) (simp_all add: dispatch_def one_embedder_upload one_embedder_chat)

lemma one_embedder_serve:
  "one_embedder E s \<Longrightarrow> one_embedder E (snd (serve env s rs))"
proof (induction rs arbitrary: s)
  case Nil
  then show ?case by simp
next
  case (Cons r rs)
  from Cons.prems have "one_embedder E (snd (dispatch env s r))"
    by (rule one_embedder_dispatch)
  then have "one_embedder E (snd (serve env (snd (dispatch env s r)) rs))"
    by (rule Cons.IH)
  then show ?case
    by (simp add: split_beta Let_def)
qed

lemma startup_Inr:
  assumes "startup env h = Inr s"
  shows "embedding_function s = HuggingFaceEmbeddings ''sentence-transformers/all-MiniLM-L6-v2''"
    and "embedding_fn (vector_store s) = embedding_function s"
    and "trace s = []"
  using assms
  by (auto simp: startup_def startup_rest_def Let_def split: option.splits if_splits sum.splits)

text \<open>
  Claim C6. In one run of the process, whatever requests are served, an \<^verbatim>\<open>add_documents\<close>
  call (ingestion) and a \<^verbatim>\<open>similarity_search\<close> call (query) are made on a store that holds
  the same embedder: the one instance built at start-up, all-MiniLM-L6-v2, which is also the
  module's global \<open>embedding_function\<close>. No handler replaces it.
\<close>

theorem one_embedder_for_ingestion_and_query:
  assumes "startup env h = Inr s0"
    and "Call_add_documents e1 n \<in> set (trace (snd (serve env s0 rs)))"
    and "Call_similarity_search e2 q k \<in> set (trace (snd (serve env s0 rs)))"
  shows "e1 = e2 \<and> e2 = embedding_function s0 \<and>
         embedding_fn (vector_store (snd (serve env s0 rs))) = embedding_function s0 \<and>
         embedding_function s0 = HuggingFaceEmbeddings ''sentence-transformers/all-MiniLM-L6-v2''"
proof -
  let ?E = "embedding_function s0"
  have "one_embedder ?E s0"
    using startup_Inr [OF assms(1)] by (simp add: one_embedder_def)
  then have inv: "one_embedder ?E (snd (serve env s0 rs))"
    by (rule one_embedder_serve)
  then have all: "\<And>c. c \<in> set (trace (snd (serve env s0 rs))) \<Longrightarrow>
      call_embedder c = None \<or> call_embedder c = Some ?E"
    by (simp add: one_embedder_def list_all_iff)
  from all [OF assms(2)] have "e1 = ?E" by simp
  moreover from all [OF assms(3)] have "e2 = ?E" by simp
  moreover from inv have "embedding_fn (vector_store (snd (serve env s0 rs))) = ?E"
    by (simp add: one_embedder_def)
  ultimately show ?thesis
    using startup_Inr(1) [OF assms(1)] by simp
qed

lemma startup_sim: "startup sim_env sim_host = Inr sim_state"
  by (simp add: startup_def startup_rest_def os_makedirs_def sim_env_def sim_host_def
      sim_state_def load_dotenv_def UPLOAD_DIR_def DB_DIR_def Let_def)

lemma sim_upload_chat_trace:
  "trace (snd (serve sim_env sim_state [POST_upload report_pdf, POST_chat name_query])) =
     [Call_copyfileobj ''uploaded_files/report.pdf'',
      Call_load ''uploaded_files/report.pdf'',
      Call_split_documents (SemanticChunker (embedding_function sim_state) ''percentile''),
      Call_add_documents (embedding_function sim_state) 1,
      Call_similarity_search (embedding_function sim_state) ''What is the project name?'' 3,
      Call_invoke (llm sim_state)
        (prompt ''The project name is Vitalyze.ai.'' ''What is the project name?'') 7]"
  by (simp add: dispatch_def upload_document_def split_and_add_def chat_endpoint_def
      log_call_def copy_to_disk_def sim_env_def sim_state_def report_pdf_def name_query_def
      os_path_join_def startswith_def endswith_def UPLOAD_DIR_def Let_def)

theorem one_embedder_for_ingestion_and_query_witness:
  "startup sim_env sim_host = Inr sim_state \<and>
   Call_add_documents (embedding_function sim_state) 1
     \<in> set (trace (snd (serve sim_env sim_state [POST_upload report_pdf, POST_chat name_query]))) \<and>
   Call_similarity_search (embedding_function sim_state) ''What is the project name?'' 3
     \<in> set (trace (snd (serve sim_env sim_state [POST_upload report_pdf, POST_chat name_query]))) \<and>
   embedding_function sim_state =
     HuggingFaceEmbeddings ''sentence-transformers/all-MiniLM-L6-v2''"
proof -
  let ?E = "embedding_function sim_state"
  let ?rs = "[POST_upload report_pdf, POST_chat name_query]"
  have a: "Call_add_documents ?E 1 \<in> set (trace (snd (serve sim_env sim_state ?rs)))"
    unfolding sim_upload_chat_trace by simp
  have b: "Call_similarity_search ?E ''What is the project name?'' 3
      \<in> set (trace (snd (serve sim_env sim_state ?rs)))"
    unfolding sim_upload_chat_trace by simp
  from one_embedder_for_ingestion_and_query [OF startup_sim a b] startup_sim a b
  show ?thesis by simp
qed

section \<open>Properties of POST /chat/\<close>



lemma chat_endpoint_found:
  assumes "similarity_search env (embedding_fn (vector_store s)) (collection (vector_store s))
      (question request) 3 = Inr results"
    and "invoke env (llm s)
      (trace s @ [Call_similarity_search (embedding_fn (vector_store s)) (question request) 3])
      (prompt (str_join ''\<newline>\<newline>'' (map page_content results)) (question request))
      = (requests, outcome)"
  shows "chat_endpoint env s request =
    (case outcome of
       Inl e \<Rightarrow> Inl e
     | Inr response \<Rightarrow>
         Inr (JObj [(''response'', JStr response),
                    (''source_docs'', JList (map (\<lambda>doc. JObj (metadata doc)) results))]),
     s\<lparr>trace := trace s @
        [Call_similarity_search (embedding_fn (vector_store s)) (question request) 3,
         Call_invoke (llm s)
           (prompt (str_join ''\<newline>\<newline>'' (map page_content results)) (question request))
           requests]\<rparr>)"
  using assms by (simp add: chat_endpoint_def log_call_def Let_def split: sum.splits)

text \<open>The log is the only part of the state an upload does not read.\<close>

lemma split_and_add_ignores_trace:
  "fst (split_and_add env (s\<lparr>trace := t\<rparr>) loaded) = fst (split_and_add env s loaded) \<and>
   files (snd (split_and_add env (s\<lparr>trace := t\<rparr>) loaded)) = files (snd (split_and_add env s loaded)) \<and>
   vector_store (snd (split_and_add env (s\<lparr>trace := t\<rparr>) loaded)) =
     vector_store (snd (split_and_add env s loaded))"
  by (simp add: split_and_add_def log_call_def Let_def split: sum.splits prod.splits option.splits)

lemma upload_document_ignores_trace:
  "fst (upload_document env (s\<lparr>trace := t\<rparr>) f) = fst (upload_document env s f) \<and>
   files (snd (upload_document env (s\<lparr>trace := t\<rparr>) f)) = files (snd (upload_document env s f)) \<and>
   vector_store (snd (upload_document env (s\<lparr>trace := t\<rparr>) f)) =
     vector_store (snd (upload_document env s f))"
proof -
  let ?p = "os_path_join UPLOAD_DIR (filename f)"
  obtain failure disk where c: "copy_to_disk env (files s) ?p (file_bytes f) = (failure, disk)"
    by (cases "copy_to_disk env (files s) ?p (file_bytes f)")
  have tail: "fst (split_and_add env (log_call c2 (log_call c1 (s\<lparr>trace := t, files := disk\<rparr>))) loaded)
        = fst (split_and_add env (log_call c2 (log_call c1 (s\<lparr>files := disk\<rparr>))) loaded) \<and>
      files (snd (split_and_add env (log_call c2 (log_call c1 (s\<lparr>trace := t, files := disk\<rparr>))) loaded))
        = files (snd (split_and_add env (log_call c2 (log_call c1 (s\<lparr>files := disk\<rparr>))) loaded)) \<and>
      vector_store (snd (split_and_add env (log_call c2 (log_call c1 (s\<lparr>trace := t, files := disk\<rparr>))) loaded))
        = vector_store (snd (split_and_add env (log_call c2 (log_call c1 (s\<lparr>files := disk\<rparr>))) loaded))"
    for c1 c2 loaded
    using split_and_add_ignores_trace
      [where env = env and s = "log_call c2 (log_call c1 (s\<lparr>files := disk\<rparr>))"
        and t = "t @ [c1, c2]" and loaded = loaded]
    by (simp add: log_call_def)
  show ?thesis
    using tail by (simp add: upload_document_def Let_def c log_call_def split: option.splits)
qed

lemma length_serve: "length (fst (serve env s rs)) = length rs"
  by (induction rs arbitrary: s) (simp_all add: split_beta Let_def)

text \<open>
  Claim C1, as amended. When the vector store answered and \<^verbatim>\<open>chain.invoke\<close> raises \<open>e\<close>,
  the chat request ends with \<open>e\<close>: the handler catches nothing, so the caller gets the error
  response. The handler made that one call and none after it; how many requests the client
  sent to the provider during the call (\<open>requests\<close>) is the client's affair. The failed
  request changes nothing of the state but the log; each request that follows gets its
  response, and a later upload is answered, and acts on the disk and on the store, exactly as
  if the failed request had never been made.
\<close>

theorem generation_error_is_surfaced:
  fixes env :: "'c env" and s :: "'c state" and request :: query_request
    and results :: "document list"
  defines "vs \<equiv> vector_store s"
  defines "searched \<equiv> Call_similarity_search (embedding_fn vs) (question request) 3"
  assumes found: "similarity_search env (embedding_fn vs) (collection vs) (question request) 3
      = Inr results"
  defines "text \<equiv> prompt (str_join ''\<newline>\<newline>'' (map page_content results)) (question request)"
  assumes failed: "invoke env (llm s) (trace s @ [searched]) text = (requests, Inl e)"
  defines "s' \<equiv> s\<lparr>trace := trace s @ [searched, Call_invoke (llm s) text requests]\<rparr>"
  shows "chat_endpoint env s request = (Inl e, s') \<and>
         fst (serve env s (POST_chat request # rest)) = Inl e # fst (serve env s' rest) \<and>
         length (fst (serve env s' rest)) = length rest \<and>
         fst (upload_document env s' f) = fst (upload_document env s f) \<and>
         files (snd (upload_document env s' f)) = files (snd (upload_document env s f)) \<and>
         vector_store (snd (upload_document env s' f)) = vector_store (snd (upload_document env s f))"
proof -
  have one: "chat_endpoint env s request = (Inl e, s')"
    using chat_endpoint_found [of env s request results requests "Inl e"] found failed
    unfolding vs_def searched_def text_def s'_def by simp
  then have "dispatch env s (POST_chat request) = (Inl e, s')"
    by (simp add: dispatch_def)
  then have next_ones: "fst (serve env s (POST_chat request # rest)) = Inl e # fst (serve env s' rest)"
    by (simp add: split_beta)
  from one next_ones show ?thesis
    using upload_document_ignores_trace [where env = env and s = s and f = f]
      length_serve [of env s' rest]
    unfolding s'_def by simp
qed

lemma sim_first_chat:
  "similarity_search sim_env (embedding_fn (vector_store sim_state))
     (collection (vector_store sim_state)) (question name_query) 3 = Inr []"
  "invoke sim_env (llm sim_state)
     (trace sim_state @
       [Call_similarity_search (embedding_fn (vector_store sim_state)) (question name_query) 3])
     (prompt (str_join ''\<newline>\<newline>'' (map page_content [])) (question name_query))
     = (7, Inl (Raised ''429 Too Many Requests''))"
  by (simp_all add: sim_env_def sim_state_def)

theorem generation_error_is_surfaced_witness:
  "similarity_search sim_env (embedding_fn (vector_store sim_state))
     (collection (vector_store sim_state)) (question name_query) 3 = Inr [] \<and>
   invoke sim_env (llm sim_state)
     (trace sim_state @
       [Call_similarity_search (embedding_fn (vector_store sim_state)) (question name_query) 3])
     (prompt (str_join ''\<newline>\<newline>'' (map page_content [])) (question name_query))
     = (7, Inl (Raised ''429 Too Many Requests'')) \<and>
   fst (chat_endpoint sim_env sim_state name_query) = Inl (Raised ''429 Too Many Requests'') \<and>
   fst (serve sim_env sim_state [POST_chat name_query, POST_chat name_query]) =
     [Inl (Raised ''429 Too Many Requests''),
      Inr (JObj [(''response'', JStr ''**Vitalyze.ai**''), (''source_docs'', JList [])])]"
proof -
  have second: "fst (serve sim_env
      (sim_state\<lparr>trace := trace sim_state @
         [Call_similarity_search (embedding_fn (vector_store sim_state)) (question name_query) 3,
          Call_invoke (llm sim_state)
            (prompt (str_join ''\<newline>\<newline>'' (map page_content [])) (question name_query)) 7]\<rparr>)
      [POST_chat name_query]) =
      [Inr (JObj [(''response'', JStr ''**Vitalyze.ai**''), (''source_docs'', JList [])])]"
    by (simp add: dispatch_def chat_endpoint_def log_call_def sim_env_def sim_state_def
        name_query_def Let_def)
  from generation_error_is_surfaced [OF sim_first_chat, of "[POST_chat name_query]"]
    sim_first_chat second
  show ?thesis by simp
qed

text \<open>
  The claim as it was stated, "with no automatic retry", fails where the client retries by
  itself: here the one failing chat request leaves one \<^verbatim>\<open>invoke\<close> in the log, during which
  seven requests went to the provider before the error reached the caller.
\<close>

theorem one_failing_chat_sends_seven_requests:
  "fst (chat_endpoint sim_env sim_state name_query) = Inl (Raised ''429 Too Many Requests'') \<and>
   trace (snd (chat_endpoint sim_env sim_state name_query)) =
     [Call_similarity_search (embedding_function sim_state) ''What is the project name?'' 3,
      Call_invoke (llm sim_state) (prompt [] ''What is the project name?'') 7]"
  by (simp add: chat_endpoint_def log_call_def sim_env_def sim_state_def name_query_def Let_def)







section \<open>Properties of POST /upload/\<close>

lemma upload_document_save_failed:
  assumes "write_fault env (files s) (os_path_join UPLOAD_DIR (filename f)) (file_bytes f)
      = Some (msg, partial)"
  shows "fst (upload_document env s f) = Inr (JObj [(''error'', JStr (''Failed to save file: '' @ msg))])"
    and "vector_store (snd (upload_document env s f)) = vector_store s"
    and "trace (snd (upload_document env s f)) =
      trace s @ [Call_copyfileobj (os_path_join UPLOAD_DIR (filename f))]"
  using assms
  by (cases partial; simp add: upload_document_def copy_to_disk_def log_call_def Let_def)+

lemma upload_document_saved:
  assumes "write_fault env (files s) (os_path_join UPLOAD_DIR (filename f)) (file_bytes f) = None"
  shows "upload_document env s f =
    (let file_path = os_path_join UPLOAD_DIR (filename f);
         disk = (files s)(file_path \<mapsto> file_bytes f);
         s1 = s\<lparr>files := disk, trace := trace s @ [Call_copyfileobj file_path]\<rparr>;
         s2 = s\<lparr>files := disk, trace := trace s @ [Call_copyfileobj file_path, Call_load file_path]\<rparr>
     in if endswith (filename f) ''.pdf'' then
          split_and_add env s2 (PyPDFLoader_load env disk file_path)
        else if endswith (filename f) ''.docx'' then
          split_and_add env s2 (Docx2txtLoader_load env disk file_path)
        else (Inr (JObj [(''error'', JStr ''Unsupported file format'')]), s1))"
  using assms
  by (simp add: upload_document_def copy_to_disk_def log_call_def Let_def)


text \<open>
  Claim C3, as amended. An upload whose file name ends in neither \<^verbatim>\<open>.pdf\<close> nor
  \<^verbatim>\<open>.docx\<close> is answered with \<^verbatim>\<open>{"error": <string>}\<close>: the unsupported-format error when
  the raw file could be written, the save-failure error, with the message of the exception,
  when the write raised. Either way the vector store is left as it was, and the only library
  call made is the write of the raw file: no loader, no chunker, no \<^verbatim>\<open>add_documents\<close>.
\<close>

theorem unsupported_upload_is_rejected:
  fixes env :: "'c env" and s :: "'c state" and f :: upload_file
  defines "file_path \<equiv> os_path_join UPLOAD_DIR (filename f)"
  assumes "\<not> endswith (filename f) ''.pdf''" and "\<not> endswith (filename f) ''.docx''"
  shows "(write_fault env (files s) file_path (file_bytes f) = None \<longrightarrow>
            fst (upload_document env s f) =
              Inr (JObj [(''error'', JStr ''Unsupported file format'')])) \<and>
         (\<forall>msg partial. write_fault env (files s) file_path (file_bytes f) = Some (msg, partial) \<longrightarrow>
            fst (upload_document env s f) =
              Inr (JObj [(''error'', JStr (''Failed to save file: '' @ msg))])) \<and>
         (\<exists>msg. fst (upload_document env s f) = Inr (JObj [(''error'', JStr msg)])) \<and>
         vector_store (snd (upload_document env s f)) = vector_store s \<and>
         trace (snd (upload_document env s f)) = trace s @ [Call_copyfileobj file_path]"
proof (cases "write_fault env (files s) file_path (file_bytes f)")
  case None
  then show ?thesis
    using assms(2,3) unfolding file_path_def
    by (simp add: upload_document_saved Let_def)
next
  case (Some a)
  obtain msg partial where "a = (msg, partial)" by (cases a)
  with Some have "write_fault env (files s) (os_path_join UPLOAD_DIR (filename f)) (file_bytes f)
      = Some (msg, partial)"
    by (simp add: file_path_def)
  from upload_document_save_failed [OF this] Some \<open>a = (msg, partial)\<close> show ?thesis
    by (simp add: file_path_def)
qed

lemma sim_notes_upload:
  "fst (upload_document sim_env sim_state notes_txt) =
     Inr (JObj [(''error'', JStr ''Unsupported file format'')])"
  "collection (vector_store (snd (upload_document sim_env sim_state notes_txt))) = []"
  "files (snd (upload_document sim_env sim_state notes_txt)) ''uploaded_files/notes.txt''
     = Some ''plain text''"
  by (simp_all add: upload_document_def copy_to_disk_def log_call_def sim_env_def sim_state_def
      notes_txt_def os_path_join_def startswith_def endswith_def UPLOAD_DIR_def Let_def)

lemma sim_locked_fault:
  "\<not> endswith (filename locked_txt) ''.pdf''" "\<not> endswith (filename locked_txt) ''.docx''"
  "write_fault sim_env (files sim_state) (os_path_join UPLOAD_DIR (filename locked_txt))
     (file_bytes locked_txt) = Some (''[Errno 13] Permission denied'', None)"
  by (simp_all add: sim_env_def locked_txt_def os_path_join_def startswith_def endswith_def
      UPLOAD_DIR_def)

theorem unsupported_upload_is_rejected_witness:
  "\<not> endswith (filename notes_txt) ''.pdf'' \<and> \<not> endswith (filename notes_txt) ''.docx'' \<and>
   write_fault sim_env (files sim_state) (os_path_join UPLOAD_DIR (filename notes_txt))
     (file_bytes notes_txt) = None \<and>
   fst (upload_document sim_env sim_state notes_txt) =
     Inr (JObj [(''error'', JStr ''Unsupported file format'')]) \<and>
   vector_store (snd (upload_document sim_env sim_state notes_txt)) = vector_store sim_state \<and>
   collection (vector_store sim_state) = [] \<and>
   \<not> endswith (filename locked_txt) ''.pdf'' \<and> \<not> endswith (filename locked_txt) ''.docx'' \<and>
   write_fault sim_env (files sim_state) (os_path_join UPLOAD_DIR (filename locked_txt))
     (file_bytes locked_txt) = Some (''[Errno 13] Permission denied'', None) \<and>
   fst (upload_document sim_env sim_state locked_txt) =
     Inr (JObj [(''error'', JStr ''Failed to save file: [Errno 13] Permission denied'')]) \<and>
   vector_store (snd (upload_document sim_env sim_state locked_txt)) = vector_store sim_state"
proof -
  have a: "\<not> endswith (filename notes_txt) ''.pdf''" "\<not> endswith (filename notes_txt) ''.docx''"
    by (simp_all add: notes_txt_def endswith_def)
  have w: "write_fault sim_env (files sim_state) (os_path_join UPLOAD_DIR (filename notes_txt))
      (file_bytes notes_txt) = None"
    by (simp add: sim_env_def notes_txt_def os_path_join_def startswith_def endswith_def
        UPLOAD_DIR_def)
  have e: "collection (vector_store sim_state) = []"
    by (simp add: sim_state_def)
  from unsupported_upload_is_rejected [OF a, of sim_env sim_state] w
  have plain: "fst (upload_document sim_env sim_state notes_txt) =
      Inr (JObj [(''error'', JStr ''Unsupported file format'')]) \<and>
    vector_store (snd (upload_document sim_env sim_state notes_txt)) = vector_store sim_state"
    by simp
  from unsupported_upload_is_rejected [OF sim_locked_fault(1,2), of sim_env sim_state]
    sim_locked_fault(3)
  have denied: "fst (upload_document sim_env sim_state locked_txt) =
      Inr (JObj [(''error'', JStr ''Failed to save file: [Errno 13] Permission denied'')]) \<and>
    vector_store (snd (upload_document sim_env sim_state locked_txt)) = vector_store sim_state"
    by simp
  from a w e plain sim_locked_fault denied show ?thesis by simp
qed

text \<open>
  The claim as it was stated, that every such upload gets the unsupported-format error, fails
  where the raw file cannot be written: the write comes first (lines 95-99), and
  \<^verbatim>\<open>locked.txt\<close> is answered with the save-failure error.
\<close>

theorem unsupported_name_with_failed_write_gets_save_error:
  "\<not> endswith (filename locked_txt) ''.pdf'' \<and> \<not> endswith (filename locked_txt) ''.docx'' \<and>
   fst (upload_document sim_env sim_state locked_txt) =
     Inr (JObj [(''error'', JStr ''Failed to save file: [Errno 13] Permission denied'')]) \<and>
   fst (upload_document sim_env sim_state locked_txt) \<noteq>
     Inr (JObj [(''error'', JStr ''Unsupported file format'')])"
  by (simp add: upload_document_def copy_to_disk_def log_call_def sim_env_def sim_state_def
      locked_txt_def os_path_join_def startswith_def endswith_def UPLOAD_DIR_def Let_def)




lemma os_path_join_plain:
  assumes "CHR ''/'' \<notin> set name"
  shows "os_path_join UPLOAD_DIR name = UPLOAD_DIR @ ''/'' @ name"
  using assms
  by (cases name) (auto simp: os_path_join_def startswith_def endswith_def UPLOAD_DIR_def)

lemma os_path_join_absolute: "os_path_join dir (CHR ''/'' # name) = CHR ''/'' # name"
  by (simp add: os_path_join_def startswith_def)

lemma split_and_add_trace:
  "\<exists>more. trace (snd (split_and_add env s loaded)) = trace s @ more"
  by (auto simp: split_and_add_def log_call_def Let_def
      split: sum.splits prod.splits option.splits)

lemma upload_document_first_call:
  "\<exists>more. trace (snd (upload_document env s f)) =
      trace s @ Call_copyfileobj (os_path_join UPLOAD_DIR (filename f)) # more"
proof (cases "write_fault env (files s) (os_path_join UPLOAD_DIR (filename f)) (file_bytes f)")
  case (Some a)
  obtain msg partial where "a = (msg, partial)" by (cases a)
  with Some upload_document_save_failed(3) [of env s f msg partial] show ?thesis by simp
next
  case None
  let ?p = "os_path_join UPLOAD_DIR (filename f)"
  let ?s2 = "s\<lparr>files := (files s)(?p \<mapsto> file_bytes f),
      trace := trace s @ [Call_copyfileobj ?p, Call_load ?p]\<rparr>"
  have "\<exists>more. trace (snd (split_and_add env ?s2 loaded)) = trace s @ Call_copyfileobj ?p # more"
    for loaded
    using split_and_add_trace [of env ?s2 loaded] by auto
  then show ?thesis
    by (simp add: upload_document_saved [OF None] Let_def)
qed

lemma upload_document_saved_files:
  assumes "write_fault env (files s) (os_path_join UPLOAD_DIR (filename f)) (file_bytes f) = None"
  shows "files (snd (upload_document env s f)) =
    (files s)(os_path_join UPLOAD_DIR (filename f) \<mapsto> file_bytes f)"
  by (simp add: upload_document_saved [OF assms] Let_def split_and_add_keeps)

lemma upload_document_rejected:
  assumes "fst (upload_document env s f) = Inr (JObj [(''error'', JStr ''Unsupported file format'')])"
  shows "files (snd (upload_document env s f)) =
      (files s)(os_path_join UPLOAD_DIR (filename f) \<mapsto> file_bytes f)"
    and "trace (snd (upload_document env s f)) =
      trace s @ [Call_copyfileobj (os_path_join UPLOAD_DIR (filename f))]"
proof -
  let ?p = "os_path_join UPLOAD_DIR (filename f)"
  have saved: "write_fault env (files s) ?p (file_bytes f) = None"
  proof (cases "write_fault env (files s) ?p (file_bytes f)")
    case (Some a)
    obtain msg partial where "a = (msg, partial)" by (cases a)
    with Some upload_document_save_failed(1) [of env s f msg partial] assms show ?thesis by simp
  qed simp
  then show "files (snd (upload_document env s f)) = (files s)(?p \<mapsto> file_bytes f)"
    by (rule upload_document_saved_files)
  have not_tail: "fst (split_and_add env s2 loaded) \<noteq>
      Inr (JObj [(''error'', JStr ''Unsupported file format'')])" for s2 loaded
    by (auto simp: split_and_add_def log_call_def Let_def
        split: sum.splits prod.splits option.splits)
  from assms not_tail show "trace (snd (upload_document env s f)) = trace s @ [Call_copyfileobj ?p]"
    by (auto simp: upload_document_saved [OF saved] Let_def split: if_splits)
qed

text \<open>
  What holds of every upload, whatever its file name: the first thing the handler does is the
  write to \<^verbatim>\<open>os.path.join(UPLOAD_DIR, file.filename)\<close>, before any look at the extension. When
  the write succeeds, that path holds the uploaded bytes afterwards, in place of whatever it
  held, on every path through the handler; when it raises, the save-failure error is returned
  and nothing else is called. An upload answered with the unsupported-format error has made
  that one call and leaves the raw file on disk.
\<close>

lemma raw_file_is_saved_before_the_format_check:
  fixes env :: "'c env" and s :: "'c state" and f :: upload_file
  defines "file_path \<equiv> os_path_join UPLOAD_DIR (filename f)"
  shows "(\<exists>more. trace (snd (upload_document env s f)) =
            trace s @ Call_copyfileobj file_path # more) \<and>
         (write_fault env (files s) file_path (file_bytes f) = None \<longrightarrow>
            files (snd (upload_document env s f)) = (files s)(file_path \<mapsto> file_bytes f)) \<and>
         (\<forall>msg partial. write_fault env (files s) file_path (file_bytes f) = Some (msg, partial) \<longrightarrow>
            fst (upload_document env s f) =
              Inr (JObj [(''error'', JStr (''Failed to save file: '' @ msg))]) \<and>
            trace (snd (upload_document env s f)) = trace s @ [Call_copyfileobj file_path]) \<and>
         (fst (upload_document env s f) = Inr (JObj [(''error'', JStr ''Unsupported file format'')])
            \<longrightarrow> files (snd (upload_document env s f)) = (files s)(file_path \<mapsto> file_bytes f) \<and>
                trace (snd (upload_document env s f)) = trace s @ [Call_copyfileobj file_path])"
  using upload_document_first_call [of env s f] upload_document_saved_files [of env s f]
    upload_document_rejected [of env s f] upload_document_save_failed(1,3) [of env s f]
  unfolding file_path_def by blast

text \<open>
  Claim C9. The claim says that every upload's raw file is written to the uploads directory
  under its original file name. The handler aims at that directory
  (\<^verbatim>\<open>os.path.join(UPLOAD_DIR, file.filename)\<close>) but does not check the name: for the file name
  \<^verbatim>\<open>/tmp/evil.txt\<close> the join drops \<^verbatim>\<open>uploaded_files\<close>, and after the (rejected) upload the
  only file on disk is \<^verbatim>\<open>/tmp/evil.txt\<close>, outside the uploads directory.
\<close>

theorem absolute_filename_is_written_outside_uploads:
  "filename evil_txt = ''/tmp/evil.txt'' \<and>
   os_path_join UPLOAD_DIR (filename evil_txt) = ''/tmp/evil.txt'' \<and>
   fst (upload_document sim_env sim_state evil_txt) =
     Inr (JObj [(''error'', JStr ''Unsupported file format'')]) \<and>
   files (snd (upload_document sim_env sim_state evil_txt)) ''/tmp/evil.txt'' = Some ''x'' \<and>
   dom (files (snd (upload_document sim_env sim_state evil_txt))) = {''/tmp/evil.txt''}"
  by (simp add: upload_document_def copy_to_disk_def log_call_def sim_env_def sim_state_def
      evil_txt_def os_path_join_def startswith_def endswith_def UPLOAD_DIR_def Let_def)

section \<open>Properties of start-up\<close>

lemma startup_without_key:
  assumes "load_dotenv (host_dotenv h) (host_environ h) ''PPLX_API_KEY'' = None \<or>
      load_dotenv (host_dotenv h) (host_environ h) ''PPLX_API_KEY'' = Some []"
  shows "startup env h = Inl (ValueError api_key_message)"
  using assms by (auto simp: startup_def Let_def)

lemma startup_with_key:
  assumes "load_dotenv (host_dotenv h) (host_environ h) ''PPLX_API_KEY'' = Some k" and "k \<noteq> []"
  shows "startup env h = startup_rest env h (load_dotenv (host_dotenv h) (host_environ h)) k"
  using assms by (simp add: startup_def Let_def)

lemma os_makedirs_no_ValueError: "os_makedirs env ds disk name \<noteq> Inl (ValueError m)"
  by (simp add: os_makedirs_def split: option.splits)

lemma startup_rest_no_ValueError: "startup_rest env h vars k \<noteq> Inl (ValueError m)"
  using os_makedirs_no_ValueError [of env _ "host_files h" _ m]
  by (auto simp: startup_rest_def Let_def split: sum.splits option.splits)

lemma startup_rest_Inr:
  assumes "startup_rest env h vars k = Inr s"
  shows "API_KEY s = k" and "environ s ''PPLX_API_KEY'' = Some k"
  using assms
  by (auto simp: startup_rest_def Let_def split: sum.splits option.splits)

lemma startup_rest_no_fault:
  assumes "os_makedirs env (host_dirs h) (host_files h) UPLOAD_DIR = Inr ds1"
    and "os_makedirs env ds1 (host_files h) DB_DIR = Inr ds2"
    and "HuggingFaceEmbeddings_fault env ''sentence-transformers/all-MiniLM-L6-v2'' = None"
    and "Chroma_fault env DB_DIR
      (HuggingFaceEmbeddings ''sentence-transformers/all-MiniLM-L6-v2'') = None"
    and "ChatPerplexity_fault env ''sonar-pro'' (1 / 10) = None"
  shows "\<exists>s. startup_rest env h vars k = Inr s \<and> dirs s = ds2"
  using assms by (simp add: startup_rest_def Let_def)

text \<open>
  Claim C8, as amended. The credential is read after \<^verbatim>\<open>load_dotenv()\<close>. If
  \<^verbatim>\<open>PPLX_API_KEY\<close> is absent or is the empty string, the module raises \<^verbatim>\<open>ValueError\<close> and
  the process answers no request. If it is present and not empty, the check passes and
  start-up goes on with the rest of the module (lines 33-83): it no longer ends with that
  \<^verbatim>\<open>ValueError\<close>; when neither \<^verbatim>\<open>os.makedirs\<close> nor a constructor raises, the process
  starts; and once it has started it holds the key and answers every request.
\<close>

theorem startup_needs_a_nonempty_key:
  fixes env :: "'c env" and h :: "'c host" and rs :: "request list"
  defines "env_vars \<equiv> load_dotenv (host_dotenv h) (host_environ h)"
  shows "(env_vars ''PPLX_API_KEY'' = None \<or> env_vars ''PPLX_API_KEY'' = Some [] \<longrightarrow>
            startup env h = Inl (ValueError api_key_message) \<and>
            process env h rs = Inl (ValueError api_key_message)) \<and>
         (\<forall>k. env_vars ''PPLX_API_KEY'' = Some k \<and> k \<noteq> [] \<longrightarrow>
            startup env h = startup_rest env h env_vars k \<and>
            startup env h \<noteq> Inl (ValueError api_key_message) \<and>
            (\<forall>ds1 ds2.
               os_makedirs env (host_dirs h) (host_files h) UPLOAD_DIR = Inr ds1 \<and>
               os_makedirs env ds1 (host_files h) DB_DIR = Inr ds2 \<and>
               HuggingFaceEmbeddings_fault env ''sentence-transformers/all-MiniLM-L6-v2'' = None \<and>
               Chroma_fault env DB_DIR
                 (HuggingFaceEmbeddings ''sentence-transformers/all-MiniLM-L6-v2'') = None \<and>
               ChatPerplexity_fault env ''sonar-pro'' (1 / 10) = None \<longrightarrow>
               (\<exists>s. startup env h = Inr s \<and> dirs s = ds2)) \<and>
            (\<forall>s. startup env h = Inr s \<longrightarrow>
               API_KEY s = k \<and> environ s ''PPLX_API_KEY'' = Some k \<and>
               process env h rs = Inr (serve env s rs) \<and>
               length (fst (serve env s rs)) = length rs))"
proof (intro conjI impI allI)
  assume "env_vars ''PPLX_API_KEY'' = None \<or> env_vars ''PPLX_API_KEY'' = Some []"
  then have "startup env h = Inl (ValueError api_key_message)"
    unfolding env_vars_def by (rule startup_without_key)
  then show "startup env h = Inl (ValueError api_key_message)"
    and "process env h rs = Inl (ValueError api_key_message)"
    by (simp_all add: process_def)
next
  fix k
  assume "env_vars ''PPLX_API_KEY'' = Some k \<and> k \<noteq> []"
  then have rest: "startup env h = startup_rest env h env_vars k"
    unfolding env_vars_def using startup_with_key [of h k env] by simp
  show "startup env h = startup_rest env h env_vars k"
    by (rule rest)
  show "startup env h \<noteq> Inl (ValueError api_key_message)"
    by (simp add: rest startup_rest_no_ValueError)
  {
    fix ds1 ds2
    assume "os_makedirs env (host_dirs h) (host_files h) UPLOAD_DIR = Inr ds1 \<and>
      os_makedirs env ds1 (host_files h) DB_DIR = Inr ds2 \<and>
      HuggingFaceEmbeddings_fault env ''sentence-transformers/all-MiniLM-L6-v2'' = None \<and>
      Chroma_fault env DB_DIR
        (HuggingFaceEmbeddings ''sentence-transformers/all-MiniLM-L6-v2'') = None \<and>
      ChatPerplexity_fault env ''sonar-pro'' (1 / 10) = None"
    then show "\<exists>s. startup env h = Inr s \<and> dirs s = ds2"
      using startup_rest_no_fault [of env h ds1 ds2 env_vars k] by (simp add: rest)
  }
  {
    fix s
    assume started: "startup env h = Inr s"
    then have "startup_rest env h env_vars k = Inr s"
      by (simp add: rest)
    from startup_rest_Inr [OF this]
    show "API_KEY s = k" and "environ s ''PPLX_API_KEY'' = Some k" .
    show "process env h rs = Inr (serve env s rs)"
      by (simp add: process_def started)
    show "length (fst (serve env s rs)) = length rs"
      by (rule length_serve)
  }
qed

lemma sim_keys:
  "load_dotenv (host_dotenv blank_key_host) (host_environ blank_key_host) ''PPLX_API_KEY'' = Some []"
  "load_dotenv (host_dotenv sim_host) (host_environ sim_host) ''PPLX_API_KEY'' = Some ''pplx-0000''"
  "load_dotenv (host_dotenv file_in_the_way_host) (host_environ file_in_the_way_host)
     ''PPLX_API_KEY'' = Some ''pplx-0000''"
  by (simp_all add: load_dotenv_def blank_key_host_def file_in_the_way_host_def sim_host_def)

lemma sim_no_fault:
  "os_makedirs sim_env (host_dirs sim_host) (host_files sim_host) UPLOAD_DIR = Inr {UPLOAD_DIR}"
  "os_makedirs sim_env {UPLOAD_DIR} (host_files sim_host) DB_DIR = Inr {DB_DIR, UPLOAD_DIR}"
  "HuggingFaceEmbeddings_fault sim_env ''sentence-transformers/all-MiniLM-L6-v2'' = None"
  "Chroma_fault sim_env DB_DIR (HuggingFaceEmbeddings ''sentence-transformers/all-MiniLM-L6-v2'') = None"
  "ChatPerplexity_fault sim_env ''sonar-pro'' (1 / 10) = None"
  by (simp_all add: os_makedirs_def sim_env_def sim_host_def UPLOAD_DIR_def DB_DIR_def)

theorem startup_needs_a_nonempty_key_witness:
  "load_dotenv (host_dotenv sim_host) (host_environ sim_host) ''PPLX_API_KEY'' = Some ''pplx-0000'' \<and>
   ''pplx-0000'' \<noteq> [] \<and>
   os_makedirs sim_env (host_dirs sim_host) (host_files sim_host) UPLOAD_DIR = Inr {UPLOAD_DIR} \<and>
   os_makedirs sim_env {UPLOAD_DIR} (host_files sim_host) DB_DIR = Inr {DB_DIR, UPLOAD_DIR} \<and>
   HuggingFaceEmbeddings_fault sim_env ''sentence-transformers/all-MiniLM-L6-v2'' = None \<and>
   Chroma_fault sim_env DB_DIR (HuggingFaceEmbeddings ''sentence-transformers/all-MiniLM-L6-v2'') = None \<and>
   ChatPerplexity_fault sim_env ''sonar-pro'' (1 / 10) = None \<and>
   (\<exists>s. startup sim_env sim_host = Inr s \<and> dirs s = {DB_DIR, UPLOAD_DIR} \<and>
        API_KEY s = ''pplx-0000'' \<and>
        process sim_env sim_host [POST_chat name_query] = Inr (serve sim_env s [POST_chat name_query]) \<and>
        length (fst (serve sim_env s [POST_chat name_query])) = 1) \<and>
   load_dotenv (host_dotenv blank_key_host) (host_environ blank_key_host) ''PPLX_API_KEY'' = Some [] \<and>
   process sim_env blank_key_host [POST_chat name_query] = Inl (ValueError api_key_message) \<and>
   load_dotenv (host_dotenv file_in_the_way_host) (host_environ file_in_the_way_host)
     ''PPLX_API_KEY'' = Some ''pplx-0000'' \<and>
   startup sim_env file_in_the_way_host = Inl (FileExistsError ''uploaded_files'')"
proof -
  note T = startup_needs_a_nonempty_key [of sim_host sim_env "[POST_chat name_query]"]
  from T sim_keys(2) sim_no_fault
  obtain s where s: "startup sim_env sim_host = Inr s" "dirs s = {DB_DIR, UPLOAD_DIR}"
    by blast
  with T sim_keys(2) have "API_KEY s = ''pplx-0000'' \<and>
      process sim_env sim_host [POST_chat name_query] = Inr (serve sim_env s [POST_chat name_query]) \<and>
      length (fst (serve sim_env s [POST_chat name_query])) = 1"
    by auto
  with s have started: "\<exists>s. startup sim_env sim_host = Inr s \<and> dirs s = {DB_DIR, UPLOAD_DIR} \<and>
        API_KEY s = ''pplx-0000'' \<and>
        process sim_env sim_host [POST_chat name_query] = Inr (serve sim_env s [POST_chat name_query]) \<and>
        length (fst (serve sim_env s [POST_chat name_query])) = 1"
    by blast
  from startup_needs_a_nonempty_key [of blank_key_host sim_env "[POST_chat name_query]"] sim_keys(1)
  have blank: "process sim_env blank_key_host [POST_chat name_query] = Inl (ValueError api_key_message)"
    by simp
  from startup_needs_a_nonempty_key [of file_in_the_way_host sim_env "[]"] sim_keys(3)
  have "startup sim_env file_in_the_way_host =
      startup_rest sim_env file_in_the_way_host
        (load_dotenv (host_dotenv file_in_the_way_host) (host_environ file_in_the_way_host))
        ''pplx-0000''"
    by simp
  then have in_the_way: "startup sim_env file_in_the_way_host = Inl (FileExistsError ''uploaded_files'')"
    by (simp add: startup_rest_def os_makedirs_def file_in_the_way_host_def sim_host_def
        UPLOAD_DIR_def)
  from started blank in_the_way sim_keys sim_no_fault show ?thesis
    by simp
qed

text \<open>
  The claim as it was stated, "if it is present, startup proceeds", fails for a variable that
  is present and empty: \<^verbatim>\<open>not ""\<close> is true in Python.
\<close>

theorem present_but_empty_key_stops_startup:
  "host_environ blank_key_host ''PPLX_API_KEY'' = Some [] \<and>
   startup sim_env blank_key_host = Inl (ValueError api_key_message) \<and>
   process sim_env blank_key_host [POST_chat name_query] = Inl (ValueError api_key_message)"
  by (simp add: process_def startup_def load_dotenv_def blank_key_host_def sim_host_def Let_def)

end
